theory Spec2Isabelle
  imports Complex_Main
begin

section \<open>Exceptions and control flow\<close>

text \<open>
  The exceptions that occur in \<^verbatim>\<open>rtv/oauth.py\<close>. \<open>HTTPException\<close> carries the status
  code of its raw response (\<^verbatim>\<open>e._raw.status_code\<close>); \<open>OtherError\<close> stands for any
  exception that is neither a PRAW \<open>HTTPException\<close> nor an \<open>OAuthException\<close>
  (a connection error, a failure to launch the browser, ...). A constructor stands for
  the class and its subclasses, as the \<^verbatim>\<open>except\<close> clauses and \<^verbatim>\<open>isinstance\<close> read
  them.
\<close>

datatype exn =
    KeyError string
  | ValueError
  | IndexError
  | OverflowError
  | HTTPException nat
  | OAuthException
  | InvalidRefreshToken
  | OtherError string

text \<open>
  How a block of statements ends: it falls through to the next statement, executes
  \<^verbatim>\<open>return\<close>, raises, or never comes back from a call that blocks forever.
\<close>

datatype flow = Next | Return | Raise exn | Blocked

section \<open>The callback handler (class OAuthHandler)\<close>

text \<open>The dictionary \<^verbatim>\<open>OAuthHandler.params\<close>, with its three fixed keys.\<close>

record callback_params =
  state :: "string option"
  code :: "string option"
  error :: "string option"

text \<open>
  An incoming request as the handler sees it after \<^verbatim>\<open>urlparse\<close>: the path component
  and the query string.
\<close>

record request =
  path :: string
  query :: string

text \<open>What the handler puts on the wire, in order.\<close>

datatype header_value = Text string | Num nat

datatype http_event =
    SendError nat
  | SendResponse nat
  | SendHeader string header_value
  | EndHeaders
  | WriteBody string
  | StartShutdownThread

text \<open>
  The class attributes \<^verbatim>\<open>params\<close> and \<^verbatim>\<open>shutdown_on_request\<close>, and the
  output of the handler so far.
\<close>

record handler =
  params :: callback_params
  shutdown_on_request :: bool
  wire :: "http_event list"

text \<open>
  What the handler takes from outside \<^verbatim>\<open>oauth.py\<close>, as parameters: the four messages
  of the module \<^verbatim>\<open>docs\<close>, the template \<^verbatim>\<open>index.html\<close> and the percent-decoding
  \<^verbatim>\<open>unquote\<close> of the standard library. \<open>OAUTH_ERROR\<close> is the format string applied
  to its \<^verbatim>\<open>error\<close> argument, \<open>index_html\<close> the function from the message to the
  encoded document (the template with the message substituted for its placeholder).
\<close>

record resources =
  OAUTH_ACCESS_DENIED :: string
  OAUTH_ERROR :: "string \<Rightarrow> string"
  OAUTH_INVALID :: string
  OAUTH_SUCCESS :: string
  index_html :: "string \<Rightarrow> string"
  unquote :: "string \<Rightarrow> string"

text \<open>
  \<^verbatim>\<open>s.split(sep)\<close> for a separator of one character: the pieces between the
  separators, empty pieces included; the empty string has the one piece \<^verbatim>\<open>''\<close>.
\<close>

fun split_on :: "char \<Rightarrow> string \<Rightarrow> string list" where
  "split_on sep [] = [[]]"
| "split_on sep (c # cs) =
     (if c = sep then [] # split_on sep cs
      else case split_on sep cs of
             [] \<Rightarrow> [[c]]
           | piece # pieces \<Rightarrow> (c # piece) # pieces)"

text \<open>
  \<^verbatim>\<open>s.split(sep, 1)\<close>: the text before the first separator, and the text behind it if
  there is a separator.
\<close>

fun split_first :: "char \<Rightarrow> string \<Rightarrow> string \<times> string option" where
  "split_first sep [] = ([], None)"
| "split_first sep (c # cs) =
     (if c = sep then ([], Some cs)
      else case split_first sep cs of (before, behind) \<Rightarrow> (c # before, behind))"

text \<open>\<^verbatim>\<open>s.replace('+', ' ')\<close>.\<close>

definition plus_to_space :: "string \<Rightarrow> string" where
  "plus_to_space s = map (\<lambda>c. if c = CHR ''+'' then CHR '' '' else c) s"

text \<open>
  What \<^verbatim>\<open>parse_qsl\<close> of the standard library, with its default arguments, makes of one
  field of the query string: a field without \<^verbatim>\<open>=\<close> and a field with an empty value
  are dropped (\<^verbatim>\<open>keep_blank_values\<close> is false); of the other fields the name and the
  value are decoded.
\<close>

definition field_pair :: "(string \<Rightarrow> string) \<Rightarrow> string \<Rightarrow> (string \<times> string) option" where
  "field_pair unq name_value =
     (case split_first CHR ''='' name_value of
        (name, None) \<Rightarrow> None
      | (name, Some v) \<Rightarrow>
          if v = [] then None
          else Some (unq (plus_to_space name), unq (plus_to_space v)))"

text \<open>
  \<^verbatim>\<open>parse_qsl\<close>: the pairs of the fields between the separators \<^verbatim>\<open>&\<close>, in their
  order of appearance. The separator is the library's default \<^verbatim>\<open>&\<close>; releases of the
  library that also cut at \<^verbatim>\<open>;\<close> are not modelled.
\<close>

definition parse_qsl :: "(string \<Rightarrow> string) \<Rightarrow> string \<Rightarrow> (string \<times> string) list" where
  "parse_qsl unq qs = List.map_filter (field_pair unq) (split_on CHR ''&'' qs)"

text \<open>
  \<^verbatim>\<open>parse_qs\<close> of the standard library: every name among the pairs of
  \<^verbatim>\<open>parse_qsl\<close> is mapped to the list of its values, in their order of appearance.
\<close>

fun parse_qs_add :: "(string \<rightharpoonup> string list) \<Rightarrow> string \<times> string \<Rightarrow> (string \<rightharpoonup> string list)" where
  "parse_qs_add m (n, v) =
     (case m n of None \<Rightarrow> m(n \<mapsto> [v]) | Some vs \<Rightarrow> m(n \<mapsto> vs @ [v]))"

definition parse_qs :: "(string \<Rightarrow> string) \<Rightarrow> string \<Rightarrow> (string \<rightharpoonup> string list)" where
  "parse_qs unq qs = foldl parse_qs_add Map.empty (parse_qsl unq qs)"

text \<open>
  The expression \<^verbatim>\<open>qs[k][0] if k in qs else None\<close>. Indexing an empty list raises
  IndexError.
\<close>

definition first_value :: "(string \<rightharpoonup> string list) \<Rightarrow> string \<Rightarrow> exn + string option" where
  "first_value qs k =
     (case qs k of
        None \<Rightarrow> Inr None
      | Some [] \<Rightarrow> Inl IndexError
      | Some (v # _) \<Rightarrow> Inr (Some v))"

text \<open>
  Lines 89 to 96 of \<^verbatim>\<open>build_body\<close>: the choice of the message, an
  \<^verbatim>\<open>if\<close>/\<^verbatim>\<open>elif\<close> chain over the stored parameters.
\<close>

definition message_of :: "resources \<Rightarrow> callback_params \<Rightarrow> string" where
  "message_of res p =
     (if error p = Some ''access_denied'' then OAUTH_ACCESS_DENIED res
      else case error p of
        Some e \<Rightarrow> OAUTH_ERROR res e
      | None \<Rightarrow>
          if state p = None \<or> code p = None then OAUTH_INVALID res
          else OAUTH_SUCCESS res)"

definition build_body :: "resources \<Rightarrow> callback_params \<Rightarrow> string" where
  "build_body res p = index_html res (message_of res p)"

definition emit :: "http_event list \<Rightarrow> handler \<Rightarrow> handler" where
  "emit evs h = h\<lparr>wire := wire h @ evs\<rparr>"

text \<open>
  \<^verbatim>\<open>do_GET\<close>. \<^verbatim>\<open>send_error(404)\<close> writes an error response and returns; the
  statements after the \<^verbatim>\<open>if\<close> are not in an \<^verbatim>\<open>else\<close> branch and there is no
  \<^verbatim>\<open>return\<close>, so they run for every path. The result is the exception raised by the
  lookups, if any, and the handler as it is then. The reading of the template file and
  the writes to the socket are taken to succeed.
\<close>

definition do_GET :: "resources \<Rightarrow> request \<Rightarrow> handler \<Rightarrow> exn option \<times> handler" where
  "do_GET res r h =
     (let h1 = (if path r \<noteq> ''/'' then emit [SendError 404] h else h);
          qs = parse_qs (unquote res) (query r)
      in case first_value qs ''state'' of
           Inl e \<Rightarrow> (Some e, h1)
         | Inr s \<Rightarrow>
        (let h2 = h1\<lparr>params := (params h1)\<lparr>state := s\<rparr>\<rparr>
         in case first_value qs ''code'' of
              Inl e \<Rightarrow> (Some e, h2)
            | Inr c \<Rightarrow>
           (let h3 = h2\<lparr>params := (params h2)\<lparr>code := c\<rparr>\<rparr>
            in case first_value qs ''error'' of
                 Inl e \<Rightarrow> (Some e, h3)
               | Inr er \<Rightarrow>
              (let h4 = h3\<lparr>params := (params h3)\<lparr>error := er\<rparr>\<rparr>;
                   body = build_body res (params h4);
                   h5 = emit [SendResponse 200,
                              SendHeader ''Content-Type'' (Text ''text/html; charset=UTF-8''),
                              SendHeader ''Content-Length'' (Num (length body)),
                              EndHeaders,
                              WriteBody body] h4
               in (None, if shutdown_on_request h5 then emit [StartShutdownThread] h5 else h5)))))"

text \<open>
  The server's loop: the requests that arrive while it runs are handled one after the
  other. An exception in a handler is caught and logged by the server, which goes on
  with the next request.
\<close>

definition serve_forever :: "resources \<Rightarrow> request list \<Rightarrow> handler \<Rightarrow> handler" where
  "serve_forever res rs h = foldl (\<lambda>h' r. snd (do_GET res r h')) h rs"

section \<open>The rate limiter (class OAuthRateLimiter)\<close>

text \<open>
  A Python float as far as the limiter looks at it: a finite value, an infinity or a
  NaN. Points in time and durations are finite and are taken as exact reals.
\<close>

datatype pyfloat = Finite real | PosInf | NegInf | NaN

text \<open>The comparisons \<^verbatim>\<open>x <= 0\<close> and \<^verbatim>\<open>x > 0\<close> on floats; both are false on NaN.\<close>

fun le_zero :: "pyfloat \<Rightarrow> bool" where
  "le_zero (Finite x) = (x \<le> 0)"
| "le_zero PosInf = False"
| "le_zero NegInf = True"
| "le_zero NaN = False"

fun gt_zero :: "pyfloat \<Rightarrow> bool" where
  "gt_zero (Finite x) = (0 < x)"
| "gt_zero PosInf = True"
| "gt_zero NegInf = False"
| "gt_zero NaN = False"

text \<open>
  The built-in conversions \<^verbatim>\<open>float(s)\<close> and \<^verbatim>\<open>int(s)\<close> of a header value; the
  result is \<open>None\<close> where Python raises ValueError. They are parameters of the
  limiter's operations.
\<close>

record pylib =
  py_float :: "string \<Rightarrow> pyfloat option"
  py_int :: "string \<Rightarrow> int option"

text \<open>
  An instance of the two conversions for the closed examples below: it reads plain
  decimal integers such as \<^verbatim>\<open>0\<close>, \<^verbatim>\<open>30\<close> or \<^verbatim>\<open>-5\<close>, on which it agrees
  with Python.
\<close>

definition digit_of :: "char \<Rightarrow> nat option" where
  "digit_of c = map_of [(CHR ''0'', 0), (CHR ''1'', 1), (CHR ''2'', 2), (CHR ''3'', 3),
     (CHR ''4'', 4), (CHR ''5'', 5), (CHR ''6'', 6), (CHR ''7'', 7), (CHR ''8'', 8),
     (CHR ''9'', 9)] c"

fun digits_value :: "nat \<Rightarrow> string \<Rightarrow> nat option" where
  "digits_value acc [] = Some acc"
| "digits_value acc (c # cs) =
     (case digit_of c of None \<Rightarrow> None | Some d \<Rightarrow> digits_value (10 * acc + d) cs)"

definition plain_nat :: "string \<Rightarrow> nat option" where
  "plain_nat s = (if s = [] then None else digits_value 0 s)"

definition plain_int :: "string \<Rightarrow> int option" where
  "plain_int s =
     (case s of
        [] \<Rightarrow> None
      | c # cs \<Rightarrow>
          if c = CHR ''-'' then map_option (\<lambda>n. - int n) (plain_nat cs)
          else map_option int (plain_nat s))"

definition plain_float :: "string \<Rightarrow> pyfloat option" where
  "plain_float s = map_option (\<lambda>i. Finite (real_of_int i)) (plain_int s)"

definition plain_lib :: pylib where
  "plain_lib = \<lparr>py_float = plain_float, py_int = plain_int\<rparr>"

text \<open>
  The limiter's one attribute, and the durations it has passed to \<^verbatim>\<open>time.sleep\<close>,
  oldest first.
\<close>

record limiter =
  next_request_timestamp :: "real option"
  sleeps :: "real list"

type_synonym headers = "string \<rightharpoonup> string"

text \<open>\<^verbatim>\<open>delay\<close>; \<open>now\<close> is what \<^verbatim>\<open>time.time()\<close> returns on line 279.\<close>

definition delay :: "real \<Rightarrow> limiter \<Rightarrow> limiter" where
  "delay now l =
     (case next_request_timestamp l of
        None \<Rightarrow> l
      | Some t \<Rightarrow>
          (let sleep_seconds = t - now
           in if sleep_seconds \<le> 0 then l
              else l\<lparr>sleeps := sleeps l @ [sleep_seconds]\<rparr>))"

text \<open>
  The int operand of the float addition on line 316 is converted to a float first, which
  raises OverflowError when the int is beyond the range of a double: when its absolute
  value is at least \<open>2 ^ 1024 - 2 ^ 970\<close>, from where on the conversion would round to
  \<open>2 ^ 1024\<close>. The rounding of an int within the range is not modelled.
\<close>

definition in_float_range :: "int \<Rightarrow> bool" where
  "in_float_range n = (\<bar>n\<bar> < 2 ^ 1024 - 2 ^ 970)"

text \<open>
  \<^verbatim>\<open>update\<close>; \<open>now\<close> is what \<^verbatim>\<open>time.time()\<close> returns on line 316. The three
  conversions run in the order of lines 309 to 311; a missing key raises KeyError, a
  value that does not convert raises ValueError, and the addition on line 316 raises
  OverflowError for a number of seconds beyond the range of a float. The attribute is
  assigned only on the last lines, so the limiter is as it was when an exception is
  raised.
\<close>

definition update :: "pylib \<Rightarrow> real \<Rightarrow> headers \<Rightarrow> limiter \<Rightarrow> exn option \<times> limiter" where
  "update lib now response_headers l =
     (case response_headers ''x-ratelimit-remaining'' of
        None \<Rightarrow> (None, l)
      | Some remaining_text \<Rightarrow>
     (case response_headers ''x-ratelimit-used'' of
        None \<Rightarrow> (Some (KeyError ''x-ratelimit-used''), l)
      | Some used_text \<Rightarrow>
     (case py_float lib used_text of
        None \<Rightarrow> (Some ValueError, l)
      | Some used \<Rightarrow>
     (case py_float lib remaining_text of
        None \<Rightarrow> (Some ValueError, l)
      | Some remaining \<Rightarrow>
     (case response_headers ''x-ratelimit-reset'' of
        None \<Rightarrow> (Some (KeyError ''x-ratelimit-reset''), l)
      | Some reset_text \<Rightarrow>
     (case py_int lib reset_text of
        None \<Rightarrow> (Some ValueError, l)
      | Some seconds_to_reset \<Rightarrow>
          if le_zero remaining
          then (if in_float_range seconds_to_reset
                then (None, l\<lparr>next_request_timestamp :=
                                 Some (now + real_of_int seconds_to_reset)\<rparr>)
                else (Some OverflowError, l))
          else (None, l\<lparr>next_request_timestamp := None\<rparr>)))))))"

text \<open>
  What the body of \<^verbatim>\<open>request\<close> meets: the clock at the call of \<^verbatim>\<open>delay\<close>, the
  outcome of \<^verbatim>\<open>self.http.send\<close> (an exception, or the response, of which only the
  headers are read) and the clock at the call of \<^verbatim>\<open>update\<close>.
\<close>

record transport =
  time_at_delay :: real
  send_result :: "exn + headers"
  time_at_update :: real

text \<open>
  The body of \<^verbatim>\<open>request\<close>, lines 327 to 331, beneath its two decorators. The settings
  of line 324 are only passed on to \<^verbatim>\<open>send\<close>.
\<close>

definition request :: "pylib \<Rightarrow> transport \<Rightarrow> limiter \<Rightarrow> (exn + headers) \<times> limiter" where
  "request lib tr l =
     (let l1 = delay (time_at_delay tr) l
      in case send_result tr of
           Inl e \<Rightarrow> (Inl e, l1)
         | Inr response \<Rightarrow>
             (case update lib (time_at_update tr) response l1 of
                (Some e, l2) \<Rightarrow> (Inl e, l2)
              | (None, l2) \<Rightarrow> (Inr response, l2)))"

section \<open>The cache shim (fix_cache)\<close>

text \<open>
  A cache key is a pair of the url and a tuple of items, or a false value (\<open>None\<close>).
  Lines 241 to 248: the key without the item at index 2. Reading \<^verbatim>\<open>items[4]\<close> of a
  tuple of fewer than five items raises IndexError.
\<close>

type_synonym 'a cache_key = "(string \<times> 'a list) option"

definition fix_cache_key :: "'a cache_key \<Rightarrow> exn + 'a cache_key" where
  "fix_cache_key cache_key =
     (case cache_key of
        None \<Rightarrow> Inr None
      | Some (url, items) \<Rightarrow>
          if length items < 5 then Inl IndexError
          else Inr (Some (url, [items ! 0, items ! 1, items ! 3, items ! 4])))"

text \<open>The prepared request in \<^verbatim>\<open>kwargs['request']\<close>, of which the method is read.\<close>

record prepared_request =
  http_method :: string

text \<open>
  The function \<^verbatim>\<open>wraps\<close> that \<^verbatim>\<open>fix_cache(func)\<close> returns: \<open>func\<close> is called with
  the new key and the new value of \<^verbatim>\<open>_cache_ignore\<close>.
\<close>

definition fix_cache ::
  "('a cache_key \<Rightarrow> bool \<Rightarrow> prepared_request \<Rightarrow> exn + 'r) \<Rightarrow>
   'a cache_key \<Rightarrow> bool \<Rightarrow> prepared_request \<Rightarrow> exn + 'r" where
  "fix_cache func cache_key cache_ignore req =
     (case fix_cache_key cache_key of
        Inl e \<Rightarrow> Inl e
      | Inr cache_key' \<Rightarrow>
          func cache_key' (if http_method req \<noteq> ''GET'' then True else cache_ignore) req)"

section \<open>The authorization handshake (class OAuthHelper)\<close>

text \<open>
  The calls that \<^verbatim>\<open>authorize\<close> makes on its collaborators (the Reddit client, the
  configuration, the terminal, the server and its thread), recorded in the order in
  which they are made. What a collaborator does to its own state is not part of
  \<^verbatim>\<open>oauth.py\<close> and is not modelled.
\<close>

datatype call =
    RefreshAccessInformation string
  | LogException exn
  | ClearAuthentication
  | DeleteRefreshToken
  | GetAuthorizeUrl string
  | BindServer
  | OpenBrowser string
  | Sleep nat
  | ServerShutdown
  | ThreadJoin
  | ShowNotification string "string option"
  | GetAccessInformation "string option"
  | SaveRefreshToken

text \<open>
  What \<^verbatim>\<open>authorize\<close> reads and writes: the handler class with the shared
  \<^verbatim>\<open>params\<close>, the attribute \<^verbatim>\<open>config.refresh_token\<close>, whether
  \<^verbatim>\<open>self.server\<close> is set, the attribute \<^verbatim>\<open>term.loader.exception\<close>, and the calls
  made so far.
\<close>

record world =
  oauth_handler :: handler
  refresh_token :: "string option"
  server :: bool
  loader_exception :: "exn option"
  calls :: "call list"

text \<open>
  What the collaborators answer during one call of \<^verbatim>\<open>authorize\<close>. Each call
  returns or raises as given here:
  \<^item> \<open>loader_suppresses\<close>: the exceptions that the exit of a \<^verbatim>\<open>term.loader\<close> block
    swallows;
  \<^item> \<open>refresh_result\<close>: the exception raised by \<^verbatim>\<open>refresh_access_information\<close>, if any;
  \<^item> \<open>uuid4_hex\<close>: the value of \<^verbatim>\<open>uuid.uuid4().hex\<close>;
  \<^item> \<open>authorize_url\<close>: the result of \<^verbatim>\<open>get_authorize_url\<close> for a state;
  \<^item> \<open>display\<close>: the attribute \<^verbatim>\<open>term.display\<close>;
  \<^item> \<open>open_browser_result\<close>: the exception raised by \<^verbatim>\<open>open_browser\<close>, if any;
  \<^item> \<open>callbacks\<close>: the requests that the server handles while it runs;
  \<^item> \<open>access_information\<close>: the exception raised by \<^verbatim>\<open>get_access_information\<close>, or
    the refresh token of the bundle it returns;
  \<^item> \<open>user_name\<close>: \<^verbatim>\<open>reddit.user.name\<close> after the exchange;
  \<^item> \<open>persistent\<close>: the setting \<^verbatim>\<open>config['persistent']\<close>;
  \<^item> \<open>docs\<close>: the messages and the template of the callback page.
\<close>

record env =
  loader_suppresses :: "exn \<Rightarrow> bool"
  refresh_result :: "exn option"
  uuid4_hex :: string
  authorize_url :: "string \<Rightarrow> string"
  display :: bool
  open_browser_result :: "exn option"
  callbacks :: "request list"
  access_information :: "exn + string"
  user_name :: string
  persistent :: bool
  docs :: resources

definition record_call :: "call \<Rightarrow> world \<Rightarrow> world" where
  "record_call c w = w\<lparr>calls := calls w @ [c]\<rparr>"

definition show_notification :: "string \<Rightarrow> string option \<Rightarrow> world \<Rightarrow> world" where
  "show_notification message style w = record_call (ShowNotification message style) w"

text \<open>
  Modelled from the spec: the terminal's \<^verbatim>\<open>loader\<close>, a scoped utility that records an
  exception raised inside its block for later inspection by the caller. Its class is not
  part of \<^verbatim>\<open>oauth.py\<close>. Entering the block clears the recorded exception; an exception
  that leaves the block is either swallowed and recorded, after which control goes on
  behind the block, or it propagates.
\<close>

definition loader_exit :: "env \<Rightarrow> exn \<Rightarrow> world \<Rightarrow> flow \<times> world" where
  "loader_exit env e w =
     (if loader_suppresses env e then (Next, w\<lparr>loader_exception := Some e\<rparr>)
      else (Raise e, w))"

text \<open>
  Modelled from the spec: a block \<^verbatim>\<open>with self.term.loader(...)\<close> around \<open>body\<close>. A
  block that ends without an exception, by falling through or by \<^verbatim>\<open>return\<close>, leaves
  no exception recorded.
\<close>

definition with_loader :: "env \<Rightarrow> (world \<Rightarrow> flow \<times> world) \<Rightarrow> world \<Rightarrow> flow \<times> world" where
  "with_loader env body w =
     (case body (w\<lparr>loader_exception := None\<rparr>) of
        (Raise e, w') \<Rightarrow> loader_exit env e w'
      | (f, w') \<Rightarrow> (f, w'))"

definition clear_oauth_data :: "world \<Rightarrow> world" where
  "clear_oauth_data w = record_call DeleteRefreshToken (record_call ClearAuthentication w)"

text \<open>Lines 151 to 155: the token is bad.\<close>

definition token_rejected :: "exn \<Rightarrow> world \<Rightarrow> flow \<times> world" where
  "token_rejected e w =
     (Raise InvalidRefreshToken, clear_oauth_data (record_call (LogException e) w))"

text \<open>
  The \<^verbatim>\<open>except (HTTPException, OAuthException)\<close> clause, lines 140 to 155; an
  exception of another class is not caught.
\<close>

fun refresh_except :: "exn \<Rightarrow> world \<Rightarrow> flow \<times> world" where
  "refresh_except (HTTPException status_code) w =
     (if status_code \<noteq> 400 then (Raise (HTTPException status_code), w)
      else token_rejected (HTTPException status_code) w)"
| "refresh_except OAuthException w = token_rejected OAuthException w"
| "refresh_except e w = (Raise e, w)"

text \<open>The \<^verbatim>\<open>try\<close> statement, lines 137 to 155.\<close>

definition refresh_try :: "env \<Rightarrow> string \<Rightarrow> world \<Rightarrow> flow \<times> world" where
  "refresh_try env token w =
     (let w1 = record_call (RefreshAccessInformation token) w
      in case refresh_result env of
           None \<Rightarrow> (Next, w1)
         | Some e \<Rightarrow> refresh_except e w1)"

text \<open>Lines 136 to 156: the loader block and the \<^verbatim>\<open>return\<close> behind it.\<close>

definition refresh_flow :: "env \<Rightarrow> string \<Rightarrow> world \<Rightarrow> flow \<times> world" where
  "refresh_flow env token w =
     (case with_loader env (refresh_try env token) w of
        (Next, w') \<Rightarrow> (Return, w')
      | (f, w') \<Rightarrow> (f, w'))"

definition serve :: "env \<Rightarrow> world \<Rightarrow> world" where
  "serve env w = w\<lparr>oauth_handler := serve_forever (docs env) (callbacks env) (oauth_handler w)\<rparr>"

definition set_shutdown_on_request :: "bool \<Rightarrow> world \<Rightarrow> world" where
  "set_shutdown_on_request b w = w\<lparr>oauth_handler := (oauth_handler w)\<lparr>shutdown_on_request := b\<rparr>\<rparr>"

text \<open>
  Lines 166 to 177, with a display: the browser is opened and the server runs inside one
  loader block; an exception of \<^verbatim>\<open>open_browser\<close> leaves the block before the server
  has run. The server's loop stops after a request has been handled, since
  \<^verbatim>\<open>shutdown_on_request\<close> is true; when no request arrives it waits forever.
\<close>

definition browser_and_server :: "env \<Rightarrow> string \<Rightarrow> world \<Rightarrow> flow \<times> world" where
  "browser_and_server env url w =
     (let w1 = record_call (OpenBrowser url) w
      in case open_browser_result env of
           Some e \<Rightarrow> (Raise e, w1)
         | None \<Rightarrow> if callbacks env = [] then (Blocked, w1) else (Next, serve env w1))"

definition graphical :: "env \<Rightarrow> string \<Rightarrow> world \<Rightarrow> flow \<times> world" where
  "graphical env url w =
     (case with_loader env (browser_and_server env url) (set_shutdown_on_request True w) of
        (Next, w') \<Rightarrow> if loader_exception w' \<noteq> None then (Return, w') else (Next, w')
      | (f, w') \<Rightarrow> (f, w'))"

text \<open>
  Lines 178 to 201, without a display: the server runs in a thread while the browser
  is open, with \<^verbatim>\<open>shutdown_on_request\<close> false. When \<^verbatim>\<open>open_browser\<close> returns, the
  server is shut down and the thread is joined. When \<^verbatim>\<open>open_browser\<close> raises, the
  \<^verbatim>\<open>except\<close> clause does not shut the server down, so that the loop of the thread never
  ends and \<^verbatim>\<open>thread.join()\<close> in the \<^verbatim>\<open>finally\<close> clause never returns.
\<close>

definition headless :: "env \<Rightarrow> string \<Rightarrow> world \<Rightarrow> flow \<times> world" where
  "headless env url w =
     (case with_loader env (\<lambda>w'. (Next, record_call (Sleep 1) w'))
             (set_shutdown_on_request False w) of
        (Next, w1) \<Rightarrow>
          (let w2 = serve env (record_call (OpenBrowser url) w1)
           in case open_browser_result env of
                Some e \<Rightarrow>
                  (Blocked, record_call ThreadJoin
                     (show_notification ''Browser Error'' (Some ''error'')
                        (record_call (LogException e) w2)))
              | None \<Rightarrow> (Next, record_call ThreadJoin (record_call ServerShutdown w2)))
      | (f, w1) \<Rightarrow> (f, w1))"

text \<open>
  Lines 216 to 226: the exchange of the code. \<^verbatim>\<open>loader.exception\<close> is set behind
  the block exactly when the loader has swallowed an exception of the call.
\<close>

definition exchange :: "env \<Rightarrow> string option \<Rightarrow> world \<Rightarrow> flow \<times> world" where
  "exchange env c w =
     (let w1 = record_call (GetAccessInformation c) (w\<lparr>loader_exception := None\<rparr>)
      in case access_information env of
           Inl e \<Rightarrow>
             (case loader_exit env e w1 of
                (Next, w2) \<Rightarrow> (Return, w2)
              | (f, w2) \<Rightarrow> (f, w2))
         | Inr token \<Rightarrow>
             (let w2 = show_notification (''Welcome '' @ user_name env @ ''!'') None w1;
                  w3 = w2\<lparr>refresh_token := Some token\<rparr>
              in (Next, if persistent env then record_call SaveRefreshToken w3 else w3)))"

text \<open>The truth value of an optional string: \<open>None\<close> and the empty string are false.\<close>

definition truthy :: "string option \<Rightarrow> bool" where
  "truthy x = (case x of None \<Rightarrow> False | Some s \<Rightarrow> s \<noteq> [])"

text \<open>Lines 203 to 226: the checks of the callback's parameters, then the exchange.\<close>

definition validate :: "env \<Rightarrow> string \<Rightarrow> world \<Rightarrow> flow \<times> world" where
  "validate env csrf w =
     (let p = params (oauth_handler w)
      in if error p = Some ''access_denied''
         then (Return, show_notification ''Denied access'' (Some ''error'') w)
         else if truthy (error p)
         then (Return, show_notification ''Authentication error'' (Some ''error'') w)
         else if state p = None then (Return, w)
         else if state p \<noteq> Some csrf
         then (Return, show_notification ''UUID mismatch'' (Some ''error'') w)
         else exchange env (code p) w)"

text \<open>Lines 158 to 226: the attempt through the browser.\<close>

definition interactive :: "env \<Rightarrow> world \<Rightarrow> flow \<times> world" where
  "interactive env w =
     (let csrf = uuid4_hex env;
          url = authorize_url env csrf;
          w1 = record_call (GetAuthorizeUrl csrf) w;
          w2 = (if server w1 then w1 else record_call BindServer (w1\<lparr>server := True\<rparr>))
      in case (if display env then graphical env url w2 else headless env url w2) of
           (Next, w3) \<Rightarrow> validate env csrf w3
         | (f, w3) \<Rightarrow> (f, w3))"

text \<open>
  \<^verbatim>\<open>authorize\<close>. Falling off the end of the function is a return, so the result is
  \<open>Return\<close>, \<open>Raise\<close> or \<open>Blocked\<close>.
\<close>

definition authorize :: "env \<Rightarrow> world \<Rightarrow> flow \<times> world" where
  "authorize env w0 =
     (let w = w0\<lparr>oauth_handler := (oauth_handler w0)
                 \<lparr>params := (params (oauth_handler w0))\<lparr>state := None, code := None, error := None\<rparr>\<rparr>\<rparr>
      in case (case refresh_token w of
                 None \<Rightarrow> interactive env w
               | Some token \<Rightarrow>
                   if token \<noteq> [] then refresh_flow env token w else interactive env w) of
           (Next, w') \<Rightarrow> (Return, w')
         | (f, w') \<Rightarrow> (f, w'))"

section \<open>Auxiliary definitions for the proofs\<close>

text \<open>The values of a name in a list of pairs, in their order of appearance.\<close>

definition values_of :: "string \<Rightarrow> (string \<times> string) list \<Rightarrow> string list" where
  "values_of k pairs = map snd (filter (\<lambda>p. fst p = k) pairs)"

text \<open>The world after line 132, where the three parameters are absent.\<close>

definition reset_params :: "world \<Rightarrow> world" where
  "reset_params w =
     w\<lparr>oauth_handler := (oauth_handler w)\<lparr>params := \<lparr>state = None, code = None, error = None\<rparr>\<rparr>\<rparr>"

section \<open>Concrete inputs\<close>

text \<open>
  Messages and a template for the callback page. The queries below hold no percent sign,
  so that \<^verbatim>\<open>unquote\<close> leaves their names and values as they are.
\<close>

definition example_docs :: resources where
  "example_docs = \<lparr>OAUTH_ACCESS_DENIED = ''denied'', OAUTH_ERROR = (\<lambda>e. ''error: '' @ e),
     OAUTH_INVALID = ''invalid'', OAUTH_SUCCESS = ''success'',
     index_html = (\<lambda>message. ''<html>'' @ message @ ''</html>''),
     unquote = (\<lambda>s. s)\<rparr>"

text \<open>The handler class and the helper before any attempt.\<close>

definition handler0 :: handler where
  "handler0 = \<lparr>params = \<lparr>state = None, code = None, error = None\<rparr>,
     shutdown_on_request = True, wire = []\<rparr>"

definition world0 :: world where
  "world0 = \<lparr>oauth_handler = handler0, refresh_token = None, server = False,
     loader_exception = None, calls = []\<rparr>"

text \<open>A handler that holds the parameters of an earlier, successful callback.\<close>

definition handler_after_login :: handler where
  "handler_after_login = \<lparr>params = \<lparr>state = Some ''3f2a'', code = Some ''xyz'', error = None\<rparr>,
     shutdown_on_request = True, wire = []\<rparr>"

text \<open>A request for another path than \<^verbatim>\<open>/\<close>, and a callback that repeats a parameter.\<close>

definition favicon_request :: request where
  "favicon_request = \<lparr>path = ''/favicon.ico'', query = ''state=x''\<rparr>"

definition repeated_request :: request where
  "repeated_request = \<lparr>path = ''/'', query = ''code=c&state=first&state=second''\<rparr>"

definition denied_request :: request where
  "denied_request = \<lparr>path = ''/'', query = ''error=access_denied&error=other''\<rparr>"

text \<open>A callback whose first occurrence of the state has an empty value.\<close>

definition blank_first_request :: request where
  "blank_first_request = \<lparr>path = ''/'', query = ''state=&state=second''\<rparr>"

text \<open>
  An attempt with a display, in which the callback carries another state than the one
  generated, and an attempt without a display in which no callback arrives.
\<close>

definition env_forged :: env where
  "env_forged = \<lparr>loader_suppresses = (\<lambda>e. False), refresh_result = None,
     uuid4_hex = ''3f2a'', authorize_url = (\<lambda>s. ''https://reddit/authorize?state='' @ s),
     display = True, open_browser_result = None,
     callbacks = [\<lparr>path = ''/'', query = ''state=forged&code=xyz''\<rparr>],
     access_information = Inr ''new-token'', user_name = ''alice'', persistent = True,
     docs = example_docs\<rparr>"

definition env_quiet :: env where
  "env_quiet = env_forged\<lparr>display := False, callbacks := []\<rparr>"

definition world_forged :: world where
  "world_forged =
     \<lparr>oauth_handler =
        \<lparr>params = \<lparr>state = Some ''forged'', code = Some ''xyz'', error = None\<rparr>,
         shutdown_on_request = True,
         wire = [SendResponse 200,
                 SendHeader ''Content-Type'' (Text ''text/html; charset=UTF-8''),
                 SendHeader ''Content-Length'' (Num 20), EndHeaders,
                 WriteBody ''<html>success</html>'', StartShutdownThread]\<rparr>,
      refresh_token = None, server = True, loader_exception = None,
      calls = [GetAuthorizeUrl ''3f2a'', BindServer,
               OpenBrowser ''https://reddit/authorize?state=3f2a'',
               ShowNotification ''UUID mismatch'' (Some ''error'')]\<rparr>"

text \<open>
  A stored refresh token, and two failures of the silent refresh: the status 400 and
  the status 503, under a loader that lets every exception through.
\<close>

definition world_token :: world where
  "world_token = world0\<lparr>refresh_token := Some ''old-token''\<rparr>"

definition env_rejected :: env where
  "env_rejected = env_forged\<lparr>refresh_result := Some (HTTPException 400)\<rparr>"

definition env_unavailable :: env where
  "env_unavailable = env_forged\<lparr>refresh_result := Some (HTTPException 503)\<rparr>"



text \<open>The two failures of the silent refresh under a loader that swallows every exception.\<close>

definition env_swallowing :: env where
  "env_swallowing = env_rejected\<lparr>loader_suppresses := (\<lambda>e. True)\<rparr>"

definition env_unavailable_swallowing :: env where
  "env_unavailable_swallowing = env_unavailable\<lparr>loader_suppresses := (\<lambda>e. True)\<rparr>"

text \<open>Limiters and response headers.\<close>

definition limiter0 :: limiter where
  "limiter0 = \<lparr>next_request_timestamp = None, sleeps = []\<rparr>"

definition limiter1 :: limiter where
  "limiter1 = \<lparr>next_request_timestamp = Some 130, sleeps = []\<rparr>"

definition headers_exhausted :: headers where
  "headers_exhausted = [''x-ratelimit-used'' \<mapsto> ''600'', ''x-ratelimit-remaining'' \<mapsto> ''0'',
     ''x-ratelimit-reset'' \<mapsto> ''30'']"

definition headers_available :: headers where
  "headers_available = [''x-ratelimit-used'' \<mapsto> ''595'', ''x-ratelimit-remaining'' \<mapsto> ''5'',
     ''x-ratelimit-reset'' \<mapsto> ''30'']"

definition headers_without_used :: headers where
  "headers_without_used = [''x-ratelimit-remaining'' \<mapsto> ''0'', ''x-ratelimit-reset'' \<mapsto> ''30'']"

definition headers_remaining_only :: headers where
  "headers_remaining_only = [''x-ratelimit-remaining'' \<mapsto> ''5'']"

text \<open>
  Responses whose quota headers are incomplete or do not convert, and a response whose
  number of seconds is a one with 309 zeros, beyond the range of a float.
\<close>

definition huge_seconds :: int where
  "huge_seconds = 10 ^ 309"

definition huge_text :: string where
  "huge_text = CHR ''1'' # replicate 309 (CHR ''0'')"

definition headers_huge_reset :: headers where
  "headers_huge_reset = [''x-ratelimit-used'' \<mapsto> ''600'', ''x-ratelimit-remaining'' \<mapsto> ''0'',
     ''x-ratelimit-reset'' \<mapsto> huge_text]"

definition headers_bad_used :: headers where
  "headers_bad_used = [''x-ratelimit-used'' \<mapsto> ''many'', ''x-ratelimit-remaining'' \<mapsto> ''5'']"

definition headers_bad_remaining :: headers where
  "headers_bad_remaining = [''x-ratelimit-used'' \<mapsto> ''600'', ''x-ratelimit-remaining'' \<mapsto> ''none'']"

definition headers_without_reset :: headers where
  "headers_without_reset = [''x-ratelimit-used'' \<mapsto> ''600'', ''x-ratelimit-remaining'' \<mapsto> ''0'']"

definition headers_bad_reset :: headers where
  "headers_bad_reset = [''x-ratelimit-used'' \<mapsto> ''600'', ''x-ratelimit-remaining'' \<mapsto> ''0'',
     ''x-ratelimit-reset'' \<mapsto> ''soon'']"

definition transport_down :: transport where
  "transport_down = \<lparr>time_at_delay = 100, send_result = Inl (OtherError ''ConnectionError''),
     time_at_update = 101\<rparr>"

text \<open>A cache key with the five items that the client puts into it.\<close>

definition key0 :: "string cache_key" where
  "key0 = Some (''https://oauth.reddit.com/'', [''params'', ''data'', ''cookies'', ''auth'', ''oauth''])"

definition key0_fixed :: "string cache_key" where
  "key0_fixed = Some (''https://oauth.reddit.com/'', [''params'', ''data'', ''auth'', ''oauth''])"

section \<open>Properties of the callback handler\<close>

subsection \<open>The message of the callback page\<close>

text \<open>
  Claim C2. For every combination of the three callback parameters, each present or
  absent, \<^verbatim>\<open>build_body\<close> selects the message by this precedence, first match wins: an
  error equal to \<^verbatim>\<open>access_denied\<close> gives the denied message; an error present with any
  other value gives the provider-error message formatted with that error; an absent
  state or an absent code gives the invalid message; otherwise the success message. The
  body is the template applied to the selected message.
\<close>

theorem build_body_precedence:
  "(error p = Some ''access_denied'' \<longrightarrow>
      build_body res p = index_html res (OAUTH_ACCESS_DENIED res)) \<and>
   (error p = Some e \<and> e \<noteq> ''access_denied'' \<longrightarrow>
      build_body res p = index_html res (OAUTH_ERROR res e)) \<and>
   (error p = None \<and> (state p = None \<or> code p = None) \<longrightarrow>
      build_body res p = index_html res (OAUTH_INVALID res)) \<and>
   (error p = None \<and> state p = Some s \<and> code p = Some c \<longrightarrow>
      build_body res p = index_html res (OAUTH_SUCCESS res))"
  by (auto simp: build_body_def message_of_def)

text \<open>
  The four branches at the literal inputs \<^verbatim>\<open>error=access_denied\<close>,
  \<^verbatim>\<open>error=server_error\<close>, no parameter at all, and \<^verbatim>\<open>state=abc&code=xyz\<close>.
\<close>

theorem build_body_precedence_witness:
  "build_body example_docs \<lparr>state = None, code = None, error = Some ''access_denied''\<rparr> =
     ''<html>denied</html>'' \<and>
   build_body example_docs \<lparr>state = Some ''abc'', code = Some ''xyz'', error = Some ''server_error''\<rparr> =
     ''<html>error: server_error</html>'' \<and>
   build_body example_docs \<lparr>state = None, code = None, error = None\<rparr> =
     ''<html>invalid</html>'' \<and>
   build_body example_docs \<lparr>state = Some ''abc'', code = Some ''xyz'', error = None\<rparr> =
     ''<html>success</html>''"
  using
    build_body_precedence [of "\<lparr>state = None, code = None, error = Some ''access_denied''\<rparr>" example_docs]
    build_body_precedence [of "\<lparr>state = Some ''abc'', code = Some ''xyz'', error = Some ''server_error''\<rparr>"
      example_docs "''server_error''"]
    build_body_precedence [of "\<lparr>state = None, code = None, error = None\<rparr>" example_docs]
    build_body_precedence [of "\<lparr>state = Some ''abc'', code = Some ''xyz'', error = None\<rparr>"
      example_docs _ "''abc''" "''xyz''"]
  by (simp add: example_docs_def)

subsection \<open>What parse_qs and the handler keep of a query\<close>

lemma values_of_simps [simp]:
  "values_of k [] = []"
  "values_of k ((n, v) # ps) = (if n = k then v # values_of k ps else values_of k ps)"
  by (simp_all add: values_of_def)

lemma foldl_parse_qs_add:
  "foldl parse_qs_add m pairs k =
     (if values_of k pairs = [] then m k
      else Some ((case m k of None \<Rightarrow> [] | Some vs \<Rightarrow> vs) @ values_of k pairs))"
proof (induction pairs arbitrary: m)
  case Nil
  show ?case by simp
next
  case (Cons p ps)
  obtain n v where p: "p = (n, v)" by (cases p)
  show ?case
    unfolding p by (simp add: Cons.IH split: option.splits)
qed

lemma parse_qs_lookup:
  "parse_qs unq qs k =
     (if values_of k (parse_qsl unq qs) = [] then None else Some (values_of k (parse_qsl unq qs)))"
  by (simp add: parse_qs_def foldl_parse_qs_add)

lemma map_of_values_of:
  "map_of pairs k = (case values_of k pairs of [] \<Rightarrow> None | v # _ \<Rightarrow> Some v)"
  by (induction pairs) (auto split: list.splits if_splits)

lemma first_value_parse_qs: "first_value (parse_qs unq qs) k = Inr (map_of (parse_qsl unq qs) k)"
  by (simp add: first_value_def parse_qs_lookup map_of_values_of split: list.splits)

text \<open>
  \<^verbatim>\<open>do_GET\<close> in one step: the lookups never raise, and the three parameters are
  overwritten together.
\<close>

lemma do_GET_result:
  "do_GET res r h =
     (let h1 = (if path r \<noteq> ''/'' then emit [SendError 404] h else h);
          pairs = parse_qsl (unquote res) (query r);
          p = \<lparr>state = map_of pairs ''state'', code = map_of pairs ''code'',
               error = map_of pairs ''error''\<rparr>;
          body = build_body res p;
          h5 = emit [SendResponse 200,
                     SendHeader ''Content-Type'' (Text ''text/html; charset=UTF-8''),
                     SendHeader ''Content-Length'' (Num (length body)),
                     EndHeaders, WriteBody body] (h1\<lparr>params := p\<rparr>)
      in (None, if shutdown_on_request h then emit [StartShutdownThread] h5 else h5))"
  by (cases "params h") (simp add: do_GET_def first_value_parse_qs Let_def emit_def)

lemma do_GET_params:
  "params (snd (do_GET res r h)) =
     \<lparr>state = map_of (parse_qsl (unquote res) (query r)) ''state'',
      code = map_of (parse_qsl (unquote res) (query r)) ''code'',
      error = map_of (parse_qsl (unquote res) (query r)) ''error''\<rparr>"
  by (simp add: do_GET_result Let_def emit_def)

lemma map_of_map_filter_first:
  assumes "f x = Some (k, v)" and "\<forall>g \<in> set fs. map_option fst (f g) \<noteq> Some k"
  shows "map_of (List.map_filter f (fs @ x # gs)) k = Some v"
  using assms(2)
proof (induction fs)
  case Nil
  show ?case using assms(1) by simp
next
  case (Cons a fs)
  then show ?case
    by (cases "f a") auto
qed

lemma map_of_map_filter_none:
  assumes "\<forall>g \<in> set fs. map_option fst (f g) \<noteq> Some k"
  shows "map_of (List.map_filter f fs) k = None"
  using assms
proof (induction fs)
  case Nil
  show ?case by simp
next
  case (Cons a fs)
  then show ?case
    by (cases "f a") auto
qed

text \<open>
  Claim C10, as amended. The query string is cut at every \<^verbatim>\<open>&\<close> into fields. A field
  counts for a parameter when it has the form \<^verbatim>\<open>name=value\<close> with a value that is not
  empty and the decoded name is the parameter's; fields without \<^verbatim>\<open>=\<close> and fields
  with an empty value are skipped. Of each of the three parameters (state, code, error)
  the handler stores the decoded value of the first field that counts for it, whatever
  the later fields hold, and \<open>None\<close> when no field counts for it.
\<close>

theorem do_GET_first_nonblank:
  "(split_on CHR ''&'' (query r) = fs @ f # gs \<and>
    field_pair (unquote res) f = Some (k, v) \<and>
    (\<forall>g \<in> set fs. map_option fst (field_pair (unquote res) g) \<noteq> Some k) \<longrightarrow>
      (k = ''state'' \<longrightarrow> state (params (snd (do_GET res r h))) = Some v) \<and>
      (k = ''code'' \<longrightarrow> code (params (snd (do_GET res r h))) = Some v) \<and>
      (k = ''error'' \<longrightarrow> error (params (snd (do_GET res r h))) = Some v)) \<and>
   ((\<forall>g \<in> set (split_on CHR ''&'' (query r)).
        map_option fst (field_pair (unquote res) g) \<noteq> Some ''state'') \<longrightarrow>
      state (params (snd (do_GET res r h))) = None) \<and>
   ((\<forall>g \<in> set (split_on CHR ''&'' (query r)).
        map_option fst (field_pair (unquote res) g) \<noteq> Some ''code'') \<longrightarrow>
      code (params (snd (do_GET res r h))) = None) \<and>
   ((\<forall>g \<in> set (split_on CHR ''&'' (query r)).
        map_option fst (field_pair (unquote res) g) \<noteq> Some ''error'') \<longrightarrow>
      error (params (snd (do_GET res r h))) = None)"
proof (intro conjI impI)
  assume a: "split_on CHR ''&'' (query r) = fs @ f # gs \<and>
    field_pair (unquote res) f = Some (k, v) \<and>
    (\<forall>g \<in> set fs. map_option fst (field_pair (unquote res) g) \<noteq> Some k)"
  then have m: "map_of (parse_qsl (unquote res) (query r)) k = Some v"
    unfolding parse_qsl_def using map_of_map_filter_first [of "field_pair (unquote res)" f k v fs gs]
    by simp
  { assume "k = ''state''" with m show "state (params (snd (do_GET res r h))) = Some v"
      by (simp add: do_GET_params) }
  { assume "k = ''code''" with m show "code (params (snd (do_GET res r h))) = Some v"
      by (simp add: do_GET_params) }
  { assume "k = ''error''" with m show "error (params (snd (do_GET res r h))) = Some v"
      by (simp add: do_GET_params) }
next
  assume "\<forall>g \<in> set (split_on CHR ''&'' (query r)).
        map_option fst (field_pair (unquote res) g) \<noteq> Some ''state''"
  from map_of_map_filter_none [OF this] show "state (params (snd (do_GET res r h))) = None"
    by (simp add: do_GET_params parse_qsl_def)
next
  assume "\<forall>g \<in> set (split_on CHR ''&'' (query r)).
        map_option fst (field_pair (unquote res) g) \<noteq> Some ''code''"
  from map_of_map_filter_none [OF this] show "code (params (snd (do_GET res r h))) = None"
    by (simp add: do_GET_params parse_qsl_def)
next
  assume "\<forall>g \<in> set (split_on CHR ''&'' (query r)).
        map_option fst (field_pair (unquote res) g) \<noteq> Some ''error''"
  from map_of_map_filter_none [OF this] show "error (params (snd (do_GET res r h))) = None"
    by (simp add: do_GET_params parse_qsl_def)
qed

text \<open>
  The queries \<^verbatim>\<open>code=c&state=first&state=second\<close>,
  \<^verbatim>\<open>error=access_denied&error=other\<close> (arriving when the parameters of an earlier
  callback are stored) and \<^verbatim>\<open>state=&state=second\<close>.
\<close>

lemmas parse_defs = parse_qsl_def field_pair_def plus_to_space_def

theorem do_GET_first_nonblank_witness:
  "params (snd (do_GET example_docs repeated_request handler0)) =
     \<lparr>state = Some ''first'', code = Some ''c'', error = None\<rparr> \<and>
   params (snd (do_GET example_docs denied_request handler_after_login)) =
     \<lparr>state = None, code = None, error = Some ''access_denied''\<rparr> \<and>
   params (snd (do_GET example_docs blank_first_request handler0)) =
     \<lparr>state = Some ''second'', code = None, error = None\<rparr>"
  using
    do_GET_first_nonblank [of repeated_request "[''code=c'']" "''state=first''" "[''state=second'']"
      example_docs "''state''" "''first''" handler0]
    do_GET_first_nonblank [of repeated_request "[]" "''code=c''" "[''state=first'', ''state=second'']"
      example_docs "''code''" "''c''" handler0]
    do_GET_first_nonblank [of denied_request "[]" "''error=access_denied''" "[''error=other'']"
      example_docs "''error''" "''access_denied''" handler_after_login]
    do_GET_first_nonblank [of blank_first_request "[''state='']" "''state=second''" "[]"
      example_docs "''state''" "''second''" handler0]
  apply (cases "params (snd (do_GET example_docs repeated_request handler0))")
  apply (cases "params (snd (do_GET example_docs denied_request handler_after_login))")
  apply (cases "params (snd (do_GET example_docs blank_first_request handler0))")
  apply (simp add: repeated_request_def denied_request_def blank_first_request_def example_docs_def
      field_pair_def plus_to_space_def)
  done

text \<open>
  The claim as it was stated (the value of the first occurrence is stored, later
  duplicates are ignored) fails for the query \<^verbatim>\<open>state=&state=second\<close>: the first
  occurrence has an empty value and is dropped by \<^verbatim>\<open>parse_qs\<close>, and the value of the
  second occurrence is stored.
\<close>

theorem do_GET_blank_first_counterexample:
  "query blank_first_request = ''state=&state=second'' \<and>
   state (params (snd (do_GET example_docs blank_first_request handler0))) = Some ''second''"
  by (simp add: do_GET_params blank_first_request_def example_docs_def parse_defs)

subsection \<open>Requests for another path\<close>

text \<open>
  For a path other than \<^verbatim>\<open>/\<close> the handler sends the 404 response and then goes on
  as for \<^verbatim>\<open>/\<close>: it overwrites the three parameters, builds the page and sends it
  with the status 200.
\<close>

lemma do_GET_other_path:
  assumes "path r \<noteq> ''/''"
  shows "params (snd (do_GET res r h)) =
           \<lparr>state = map_of (parse_qsl (unquote res) (query r)) ''state'',
            code = map_of (parse_qsl (unquote res) (query r)) ''code'',
            error = map_of (parse_qsl (unquote res) (query r)) ''error''\<rparr> \<and>
         take (length (wire h) + 2) (wire (snd (do_GET res r h))) =
           wire h @ [SendError 404, SendResponse 200]"
  using assms by (simp add: do_GET_result Let_def emit_def)

text \<open>
  Claim C7. A request whose path is not exactly \<^verbatim>\<open>/\<close> should get the 404 response
  and no further processing: the stored parameters are not overwritten and no page is
  built or written. The code does not stop after \<^verbatim>\<open>send_error(404)\<close>. For the request
  \<^verbatim>\<open>GET /favicon.ico?state=x\<close>, arriving when the parameters of a finished callback are
  stored, the handler sends the 404 response, replaces the stored parameters by
  \<open>state = x\<close> with no code and no error, and writes a second response with the status
  200 and the page of the invalid message.
\<close>
theorem do_GET_other_path_evaluation:
  "do_GET example_docs favicon_request handler_after_login =
     (None,
      \<lparr>params = \<lparr>state = Some ''x'', code = None, error = None\<rparr>,
       shutdown_on_request = True,
       wire = [SendError 404, SendResponse 200,
               SendHeader ''Content-Type'' (Text ''text/html; charset=UTF-8''),
               SendHeader ''Content-Length'' (Num 20), EndHeaders,
               WriteBody ''<html>invalid</html>'', StartShutdownThread]\<rparr>)"
  by (simp add: do_GET_result Let_def emit_def favicon_request_def handler_after_login_def
        example_docs_def build_body_def message_of_def parse_defs)

section \<open>Properties of the rate limiter\<close>

lemma digits_value_zeros:
  "digits_value acc (replicate n (CHR ''0'')) = Some (acc * 10 ^ n)"
  by (induction n arbitrary: acc) (simp_all add: digit_of_def)

lemma plain_int_huge: "plain_int huge_text = Some huge_seconds"
  using digits_value_zeros [of 1 309]
  by (simp add: plain_int_def plain_nat_def huge_text_def digit_of_def huge_seconds_def)

lemma huge_out_of_range: "\<not> in_float_range huge_seconds"
  by (simp add: in_float_range_def huge_seconds_def)

lemma small_in_range: "in_float_range 30"
  by (simp add: in_float_range_def)

lemma plain_int_30: "plain_int ''30'' = Some 30"
  by (simp add: plain_int_def plain_nat_def digit_of_def)

lemma plain_float_0: "plain_float ''0'' = Some (Finite 0)"
  by (simp add: plain_float_def plain_int_def plain_nat_def digit_of_def)

lemma plain_float_600: "plain_float ''600'' = Some (Finite 600)"
  by (simp add: plain_float_def plain_int_def plain_nat_def digit_of_def)

lemma plain_float_5: "plain_float ''5'' = Some (Finite 5)"
  by (simp add: plain_float_def plain_int_def plain_nat_def digit_of_def)

lemma plain_float_595: "plain_float ''595'' = Some (Finite 595)"
  by (simp add: plain_float_def plain_int_def plain_nat_def digit_of_def)

lemma plain_bad:
  "plain_float ''many'' = None" "plain_float ''none'' = None" "plain_int ''soon'' = None"
  by (simp_all add: plain_float_def plain_int_def plain_nat_def digit_of_def)

lemmas plain_values = plain_int_30 plain_float_0 plain_float_5 plain_float_595 plain_float_600
  plain_int_huge plain_bad

lemmas header_defs = headers_exhausted_def headers_available_def headers_without_used_def
  headers_remaining_only_def headers_huge_reset_def headers_bad_used_def
  headers_bad_remaining_def headers_without_reset_def headers_bad_reset_def

lemma gt_zero_not_le_zero: "gt_zero x \<Longrightarrow> \<not> le_zero x"
  by (cases x) auto

subsection \<open>delay\<close>

text \<open>
  Claim C5. For every call of \<^verbatim>\<open>delay\<close>: when no next-allowed timestamp is set it
  returns without sleeping; otherwise, with the remaining time computed as
  \<^verbatim>\<open>next_request_timestamp\<close> minus the current time, it returns without sleeping when
  the remaining time is at most 0 and sleeps for exactly the remaining time when that is
  positive. In every case \<^verbatim>\<open>next_request_timestamp\<close> is left as it was.
\<close>

theorem delay_cases:
  "(next_request_timestamp l = None \<longrightarrow> delay now l = l) \<and>
   (next_request_timestamp l = Some t \<and> t - now \<le> 0 \<longrightarrow> delay now l = l) \<and>
   (next_request_timestamp l = Some t \<and> 0 < t - now \<longrightarrow>
      delay now l = l\<lparr>sleeps := sleeps l @ [t - now]\<rparr>) \<and>
   next_request_timestamp (delay now l) = next_request_timestamp l"
  by (auto simp: delay_def Let_def split: option.splits)

text \<open>
  No timestamp; a timestamp 30 seconds ahead; a timestamp that has passed.
\<close>

theorem delay_cases_witness:
  "delay 100 limiter0 = limiter0 \<and>
   delay 100 limiter1 = \<lparr>next_request_timestamp = Some 130, sleeps = [30]\<rparr> \<and>
   delay 131 limiter1 = limiter1"
  using delay_cases [of limiter0 100] delay_cases [of limiter1 100 130]
    delay_cases [of limiter1 131 130]
  by (simp add: limiter0_def limiter1_def)

subsection \<open>update\<close>

text \<open>
  Claim C4, as amended. For every call of \<^verbatim>\<open>update\<close>: when the key
  \<^verbatim>\<open>x-ratelimit-remaining\<close> is absent, the limiter is left unchanged. When
  \<^verbatim>\<open>x-ratelimit-used\<close> and \<^verbatim>\<open>x-ratelimit-remaining\<close> are present and convert to floats
  and \<^verbatim>\<open>x-ratelimit-reset\<close> is present and converts to an integer, then: if the
  remaining count is at most 0 and the seconds to reset are within the range of a float,
  \<^verbatim>\<open>next_request_timestamp\<close> is set to the current time plus the seconds to reset; if
  the remaining count is at most 0 and the seconds are beyond that range, the addition
  raises OverflowError and nothing is set; otherwise (in particular when the remaining
  count is positive) \<^verbatim>\<open>next_request_timestamp\<close> is cleared. Whenever \<^verbatim>\<open>update\<close>
  raises, the limiter is left unchanged.
\<close>

theorem update_cases:
  "(response_headers ''x-ratelimit-remaining'' = None \<longrightarrow>
      update lib now response_headers l = (None, l)) \<and>
   (response_headers ''x-ratelimit-used'' = Some used_text \<and>
    py_float lib used_text = Some used \<and>
    response_headers ''x-ratelimit-remaining'' = Some remaining_text \<and>
    py_float lib remaining_text = Some remaining \<and>
    response_headers ''x-ratelimit-reset'' = Some reset_text \<and>
    py_int lib reset_text = Some seconds_to_reset \<longrightarrow>
      (le_zero remaining \<and> in_float_range seconds_to_reset \<longrightarrow>
         update lib now response_headers l =
           (None, l\<lparr>next_request_timestamp := Some (now + real_of_int seconds_to_reset)\<rparr>)) \<and>
      (le_zero remaining \<and> \<not> in_float_range seconds_to_reset \<longrightarrow>
         update lib now response_headers l = (Some OverflowError, l)) \<and>
      (\<not> le_zero remaining \<longrightarrow>
         update lib now response_headers l = (None, l\<lparr>next_request_timestamp := None\<rparr>))) \<and>
   (fst (update lib now response_headers l) \<noteq> None \<longrightarrow>
      snd (update lib now response_headers l) = l)"
  by (auto simp: update_def split: option.splits)

text \<open>
  No quota left, 30 seconds to the reset; five requests left; no quota header at all; no
  quota left and a one with 309 zeros as the seconds to the reset; a response without
  \<^verbatim>\<open>x-ratelimit-used\<close>.
\<close>

theorem update_cases_witness:
  "update plain_lib 100 headers_exhausted limiter0 = (None, limiter1) \<and>
   update plain_lib 100 headers_available limiter1 = (None, limiter0) \<and>
   update plain_lib 100 Map.empty limiter1 = (None, limiter1) \<and>
   update plain_lib 100 headers_huge_reset limiter0 = (Some OverflowError, limiter0) \<and>
   snd (update plain_lib 100 headers_without_used limiter0) = limiter0"
  using
    update_cases [of headers_exhausted plain_lib 100 limiter0
      "''600''" "Finite 600" "''0''" "Finite 0" "''30''" 30]
    update_cases [of headers_available plain_lib 100 limiter1
      "''595''" "Finite 595" "''5''" "Finite 5" "''30''" 30]
    update_cases [of Map.empty plain_lib 100 limiter1]
    update_cases [of headers_huge_reset plain_lib 100 limiter0
      "''600''" "Finite 600" "''0''" "Finite 0" huge_text huge_seconds]
    update_cases [of headers_without_used plain_lib 100 limiter0]
  by (simp add: header_defs plain_lib_def plain_values limiter0_def limiter1_def update_def
        huge_out_of_range small_in_range)

text \<open>
  The claim as it was stated fails where \<^verbatim>\<open>x-ratelimit-remaining\<close> is \<^verbatim>\<open>0\<close>,
  \<^verbatim>\<open>x-ratelimit-reset\<close> is \<^verbatim>\<open>30\<close> and \<^verbatim>\<open>x-ratelimit-used\<close> is missing: line 309
  raises KeyError and the timestamp is not set to the current time plus 30.
\<close>

theorem update_without_used_counterexample:
  "headers_without_used ''x-ratelimit-remaining'' = Some ''0'' \<and>
   py_float plain_lib ''0'' = Some (Finite 0) \<and> le_zero (Finite 0) \<and>
   headers_without_used ''x-ratelimit-reset'' = Some ''30'' \<and>
   py_int plain_lib ''30'' = Some 30 \<and>
   update plain_lib 100 headers_without_used limiter0 =
     (Some (KeyError ''x-ratelimit-used''), limiter0) \<and>
   next_request_timestamp (snd (update plain_lib 100 headers_without_used limiter0)) \<noteq>
     Some (100 + 30)"
  by (simp add: update_def headers_without_used_def plain_lib_def plain_values limiter0_def)

subsection \<open>Exceptions\<close>

text \<open>
  Claim C6, as amended. \<^verbatim>\<open>update\<close> completes without raising when
  \<^verbatim>\<open>x-ratelimit-remaining\<close> is absent (a missing quota header is no error). When that
  header is present, \<^verbatim>\<open>update\<close> raises, leaving the limiter unchanged,
  \<^item> KeyError when \<^verbatim>\<open>x-ratelimit-used\<close> is missing;
  \<^item> ValueError when \<^verbatim>\<open>x-ratelimit-used\<close> or \<^verbatim>\<open>x-ratelimit-remaining\<close> does not
    convert to a float;
  \<^item> KeyError when these two convert and \<^verbatim>\<open>x-ratelimit-reset\<close> is missing;
  \<^item> ValueError when these two convert and \<^verbatim>\<open>x-ratelimit-reset\<close> does not convert
    to an integer;
  \<^item> OverflowError when the three convert, the remaining count is at most 0 and the
    seconds to reset are beyond the range of a float;

  and it completes without raising in the one case that is left: the three headers
  convert, and the seconds are within the range of a float or the remaining count is
  not at most 0. An exception raised by the send propagates unchanged out of
  \<^verbatim>\<open>request\<close> and leaves \<^verbatim>\<open>next_request_timestamp\<close> as it was, since \<^verbatim>\<open>update\<close> is
  not reached.
\<close>

theorem update_exceptions:
  "(response_headers ''x-ratelimit-remaining'' = None \<longrightarrow>
      fst (update lib now response_headers l) = None) \<and>
   (response_headers ''x-ratelimit-remaining'' = Some remaining_text \<and>
    response_headers ''x-ratelimit-used'' = None \<longrightarrow>
      update lib now response_headers l = (Some (KeyError ''x-ratelimit-used''), l)) \<and>
   (response_headers ''x-ratelimit-remaining'' = Some remaining_text \<and>
    response_headers ''x-ratelimit-used'' = Some used_text \<and>
    (py_float lib used_text = None \<or> py_float lib remaining_text = None) \<longrightarrow>
      update lib now response_headers l = (Some ValueError, l)) \<and>
   (response_headers ''x-ratelimit-remaining'' = Some remaining_text \<and>
    response_headers ''x-ratelimit-used'' = Some used_text \<and>
    py_float lib used_text = Some used \<and> py_float lib remaining_text = Some remaining \<longrightarrow>
      (response_headers ''x-ratelimit-reset'' = None \<longrightarrow>
         update lib now response_headers l = (Some (KeyError ''x-ratelimit-reset''), l)) \<and>
      (response_headers ''x-ratelimit-reset'' = Some reset_text \<and>
       py_int lib reset_text = None \<longrightarrow>
         update lib now response_headers l = (Some ValueError, l)) \<and>
      (response_headers ''x-ratelimit-reset'' = Some reset_text \<and>
       py_int lib reset_text = Some seconds_to_reset \<and>
       le_zero remaining \<and> \<not> in_float_range seconds_to_reset \<longrightarrow>
         update lib now response_headers l = (Some OverflowError, l)) \<and>
      (response_headers ''x-ratelimit-reset'' = Some reset_text \<and>
       py_int lib reset_text = Some seconds_to_reset \<and>
       (in_float_range seconds_to_reset \<or> \<not> le_zero remaining) \<longrightarrow>
         fst (update lib now response_headers l) = None)) \<and>
   (send_result tr = Inl e \<longrightarrow>
      fst (request lib tr l) = Inl e \<and>
      next_request_timestamp (snd (request lib tr l)) = next_request_timestamp l)"
  by (auto simp: update_def request_def Let_def delay_def split: option.splits)

text \<open>
  One response for each case, and a connection that fails.
\<close>

theorem update_exceptions_witness:
  "fst (update plain_lib 100 Map.empty limiter1) = None \<and>
   update plain_lib 100 headers_remaining_only limiter1 =
     (Some (KeyError ''x-ratelimit-used''), limiter1) \<and>
   update plain_lib 100 headers_bad_used limiter1 = (Some ValueError, limiter1) \<and>
   update plain_lib 100 headers_bad_remaining limiter1 = (Some ValueError, limiter1) \<and>
   update plain_lib 100 headers_without_reset limiter1 =
     (Some (KeyError ''x-ratelimit-reset''), limiter1) \<and>
   update plain_lib 100 headers_bad_reset limiter1 = (Some ValueError, limiter1) \<and>
   update plain_lib 100 headers_huge_reset limiter1 = (Some OverflowError, limiter1) \<and>
   fst (update plain_lib 100 headers_exhausted limiter0) = None \<and>
   fst (update plain_lib 100 headers_available limiter0) = None \<and>
   fst (request plain_lib transport_down limiter1) = Inl (OtherError ''ConnectionError'') \<and>
   next_request_timestamp (snd (request plain_lib transport_down limiter1)) = Some 130"
  using
    update_exceptions [of Map.empty plain_lib 100 limiter1]
    update_exceptions [of headers_remaining_only plain_lib 100 limiter1 "''5''"]
    update_exceptions [of headers_bad_used plain_lib 100 limiter1 "''5''" "''many''"]
    update_exceptions [of headers_bad_remaining plain_lib 100 limiter1 "''none''" "''600''"]
    update_exceptions [of headers_without_reset plain_lib 100 limiter1 "''0''" "''600''"
      "Finite 600" "Finite 0"]
    update_exceptions [of headers_bad_reset plain_lib 100 limiter1 "''0''" "''600''"
      "Finite 600" "Finite 0" "''soon''"]
    update_exceptions [of headers_huge_reset plain_lib 100 limiter1 "''0''" "''600''"
      "Finite 600" "Finite 0" huge_text huge_seconds]
    update_exceptions [of headers_exhausted plain_lib 100 limiter0 "''0''" "''600''"
      "Finite 600" "Finite 0" "''30''" 30]
    update_exceptions [of headers_available plain_lib 100 limiter0 "''5''" "''595''"
      "Finite 595" "Finite 5" "''30''" 30]
    update_exceptions [of _ plain_lib _ limiter1 _ _ _ _ _ _ transport_down
      "OtherError ''ConnectionError''"]
  by (simp add: header_defs plain_lib_def plain_values limiter0_def limiter1_def update_def
        huge_out_of_range small_in_range transport_down_def)

text \<open>
  The claim as it was stated (\<^verbatim>\<open>update\<close> never raises) fails for a response that
  carries \<^verbatim>\<open>x-ratelimit-remaining\<close> alone: line 309 raises KeyError.
\<close>

theorem update_raises_counterexample:
  "fst (update plain_lib 100 headers_remaining_only limiter0) =
     Some (KeyError ''x-ratelimit-used'')"
  by (simp add: update_def headers_remaining_only_def)

section \<open>Properties of the cache shim\<close>

text \<open>
  Claim C9, as amended. The shim leaves a false key as it is. Of a key with at least five
  items it keeps the url and the items at the indices 0, 1, 3 and 4. It is not
  idempotent: applied to such a result, a key of four items, it raises IndexError, as
  it does for every key with fewer than five items. For every request whose method is
  not GET, the wrapped function is called with \<^verbatim>\<open>_cache_ignore\<close> true, whatever the
  caller has passed; for a GET request the caller's value is passed on.
\<close>

theorem fix_cache_cases:
  "fix_cache_key None = Inr None \<and>
   (5 \<le> length items \<longrightarrow>
      fix_cache_key (Some (url, items)) =
        Inr (Some (url, [items ! 0, items ! 1, items ! 3, items ! 4])) \<and>
      fix_cache_key (Some (url, [items ! 0, items ! 1, items ! 3, items ! 4])) = Inl IndexError) \<and>
   (length items < 5 \<longrightarrow> fix_cache_key (Some (url, items)) = Inl IndexError) \<and>
   (http_method req \<noteq> ''GET'' \<and> fix_cache_key cache_key = Inr cache_key' \<longrightarrow>
      fix_cache func cache_key cache_ignore req = func cache_key' True req) \<and>
   (http_method req = ''GET'' \<and> fix_cache_key cache_key = Inr cache_key' \<longrightarrow>
      fix_cache func cache_key cache_ignore req = func cache_key' cache_ignore req)"
  by (auto simp: fix_cache_key_def fix_cache_def)

text \<open>
  A POST and a GET request with the key of five items, for a function that returns the
  key and the flag it is called with; and the key of four items.
\<close>

theorem fix_cache_cases_witness:
  "fix_cache (\<lambda>k i r. Inr (k, i)) key0 False \<lparr>http_method = ''POST''\<rparr> = Inr (key0_fixed, True) \<and>
   fix_cache (\<lambda>k i r. Inr (k, i)) key0 False \<lparr>http_method = ''GET''\<rparr> = Inr (key0_fixed, False) \<and>
   fix_cache_key key0_fixed = Inl IndexError"
  using
    fix_cache_cases [of "[''params'', ''data'', ''cookies'', ''auth'', ''oauth'']"
      "''https://oauth.reddit.com/''" "\<lparr>http_method = ''POST''\<rparr>" key0 key0_fixed
      "\<lambda>k i r. Inr (k, i)" False]
    fix_cache_cases [of "[''params'', ''data'', ''auth'', ''oauth'']"
      "''https://oauth.reddit.com/''" "\<lparr>http_method = ''GET''\<rparr>" key0 key0_fixed
      "\<lambda>k i r. Inr (k, i)" False]
  by (simp add: key0_def key0_fixed_def fix_cache_key_def)

text \<open>
  The claim as it was stated (applying the normalization twice gives what applying it
  once gives) fails for the key with the items \<^verbatim>\<open>params, data, cookies, auth, oauth\<close>:
  once gives the key without \<^verbatim>\<open>cookies\<close>, twice raises IndexError.
\<close>

theorem fix_cache_key_twice_counterexample:
  "fix_cache_key key0 = Inr key0_fixed \<and>
   (case fix_cache_key key0 of Inl e \<Rightarrow> Inl e | Inr k \<Rightarrow> fix_cache_key k) = Inl IndexError \<and>
   (case fix_cache_key key0 of Inl e \<Rightarrow> Inl e | Inr k \<Rightarrow> fix_cache_key k) \<noteq> fix_cache_key key0"
  by (simp add: fix_cache_key_def key0_def key0_fixed_def)

section \<open>Properties of the authorization handshake\<close>

subsection \<open>What the parts of authorize read and write\<close>

lemma record_call_simps [simp]:
  "calls (record_call c w) = calls w @ [c]"
  "oauth_handler (record_call c w) = oauth_handler w"
  "refresh_token (record_call c w) = refresh_token w"
  "server (record_call c w) = server w"
  "loader_exception (record_call c w) = loader_exception w"
  by (simp_all add: record_call_def)

lemma show_notification_simps [simp]:
  "calls (show_notification m s w) = calls w @ [ShowNotification m s]"
  "oauth_handler (show_notification m s w) = oauth_handler w"
  "refresh_token (show_notification m s w) = refresh_token w"
  "loader_exception (show_notification m s w) = loader_exception w"
  by (simp_all add: show_notification_def)

lemma serve_simps [simp]:
  "calls (serve env w) = calls w"
  "refresh_token (serve env w) = refresh_token w"
  "loader_exception (serve env w) = loader_exception w"
  "oauth_handler (serve env w) = serve_forever (docs env) (callbacks env) (oauth_handler w)"
  by (simp_all add: serve_def)

lemma set_shutdown_simps [simp]:
  "calls (set_shutdown_on_request b w) = calls w"
  "refresh_token (set_shutdown_on_request b w) = refresh_token w"
  "params (oauth_handler (set_shutdown_on_request b w)) = params (oauth_handler w)"
  by (simp_all add: set_shutdown_on_request_def)

lemma loader_exit_cases:
  "loader_exit env e w = (f, w') \<Longrightarrow>
     calls w' = calls w \<and> oauth_handler w' = oauth_handler w \<and> refresh_token w' = refresh_token w \<and>
     ((f = Next \<and> loader_exception w' = Some e) \<or> f = Raise e)"
  by (auto simp: loader_exit_def split: if_splits)

lemma refresh_except_handler:
  "refresh_except e w = (f, w') \<Longrightarrow> oauth_handler w' = oauth_handler w \<and> f \<noteq> Next \<and> f \<noteq> Return"
  by (cases e) (auto simp: token_rejected_def clear_oauth_data_def split: if_splits)

lemma refresh_flow_handler:
  assumes "refresh_flow env token w = (f, w')"
  shows "oauth_handler w' = oauth_handler w"
proof -
  obtain f1 w1 where b: "refresh_try env token (w\<lparr>loader_exception := None\<rparr>) = (f1, w1)"
    by (cases "refresh_try env token (w\<lparr>loader_exception := None\<rparr>)")
  have h1: "oauth_handler w1 = oauth_handler w"
    using b refresh_except_handler [of _ "record_call (RefreshAccessInformation token) (w\<lparr>loader_exception := None\<rparr>)" f1 w1]
    by (auto simp: refresh_try_def Let_def split: option.splits)
  show ?thesis
  proof (cases f1)
    case (Raise e)
    obtain f2 w2 where x: "loader_exit env e w1 = (f2, w2)" by (cases "loader_exit env e w1")
    from loader_exit_cases [OF x] have "oauth_handler w2 = oauth_handler w1" by simp
    with assms b Raise x h1 show ?thesis
      by (auto simp: refresh_flow_def with_loader_def split: flow.splits)
  qed (use assms b h1 in \<open>auto simp: refresh_flow_def with_loader_def\<close>)
qed

lemma graphical_cases:
  assumes "graphical env url w = (f, w')"
  shows "calls w' = calls w @ [OpenBrowser url] \<and> refresh_token w' = refresh_token w \<and>
         (f \<noteq> Next \<longrightarrow> params (oauth_handler w') = params (oauth_handler w))"
proof (cases "open_browser_result env")
  case None
  with assms show ?thesis
    by (auto simp: graphical_def with_loader_def browser_and_server_def Let_def split: if_splits)
next
  case (Some e)
  let ?w1 = "record_call (OpenBrowser url) ((set_shutdown_on_request True w)\<lparr>loader_exception := None\<rparr>)"
  obtain f2 w2 where x: "loader_exit env e ?w1 = (f2, w2)" by (cases "loader_exit env e ?w1")
  from loader_exit_cases [OF x] Some assms x show ?thesis
    by (auto simp: graphical_def with_loader_def browser_and_server_def Let_def set_shutdown_on_request_def
             split: if_splits)
qed


lemma validate_handler:
  assumes "validate env csrf w = (f, w')"
  shows "oauth_handler w' = oauth_handler w"
proof (cases "access_information env")
  case (Inl e)
  let ?w1 = "record_call (GetAccessInformation (code (params (oauth_handler w)))) (w\<lparr>loader_exception := None\<rparr>)"
  obtain f2 w2 where x: "loader_exit env e ?w1 = (f2, w2)" by (cases "loader_exit env e ?w1")
  from loader_exit_cases [OF x] Inl assms x show ?thesis
    by (auto simp: validate_def exchange_def Let_def split: if_splits flow.splits)
next
  case (Inr t)
  with assms show ?thesis
    by (auto simp: validate_def exchange_def Let_def split: if_splits)
qed


lemma reset_eq:
  "w\<lparr>oauth_handler := (oauth_handler w)
      \<lparr>params := (params (oauth_handler w))\<lparr>state := None, code := None, error := None\<rparr>\<rparr>\<rparr> = reset_params w"
  by (cases "params (oauth_handler w)") (simp add: reset_params_def)

lemma reset_params_simps [simp]:
  "calls (reset_params w) = calls w"
  "refresh_token (reset_params w) = refresh_token w"
  "server (reset_params w) = server w"
  "params (oauth_handler (reset_params w)) = \<lparr>state = None, code = None, error = None\<rparr>"
  by (simp_all add: reset_params_def)

lemma authorize_unfold:
  "authorize env w0 =
     (case (case refresh_token w0 of
              None \<Rightarrow> interactive env (reset_params w0)
            | Some token \<Rightarrow>
                if token \<noteq> [] then refresh_flow env token (reset_params w0)
                else interactive env (reset_params w0)) of
        (Next, w') \<Rightarrow> (Return, w')
      | (f, w') \<Rightarrow> (f, w'))"
  unfolding authorize_def Let_def reset_eq by simp


text \<open>
  The runs of \<^verbatim>\<open>authorize\<close> on the two concrete attempts with a forged state.
\<close>

lemmas model_defs =
  authorize_def interactive_def graphical_def headless_def validate_def exchange_def
  refresh_flow_def refresh_try_def token_rejected_def clear_oauth_data_def with_loader_def
  loader_exit_def browser_and_server_def serve_def set_shutdown_on_request_def
  show_notification_def record_call_def truthy_def serve_forever_def do_GET_def
  first_value_def parse_qs_def parse_qsl_def field_pair_def plus_to_space_def
  build_body_def message_of_def emit_def Let_def

lemma authorize_forged: "authorize env_forged world0 = (Return, world_forged)"
  by (simp add: model_defs env_forged_def world0_def handler0_def example_docs_def world_forged_def)


subsection \<open>A state that differs from the generated one\<close>




subsection \<open>A silent refresh that fails\<close>

lemma refresh_flow_rejected:
  assumes "refresh_result env = Some e" and "e = HTTPException 400 \<or> e = OAuthException"
  shows "refresh_flow env token w =
           (if loader_suppresses env InvalidRefreshToken then Return else Raise InvalidRefreshToken,
            (clear_oauth_data (record_call (LogException e)
               (record_call (RefreshAccessInformation token) (w\<lparr>loader_exception := None\<rparr>))))
            \<lparr>loader_exception := (if loader_suppresses env InvalidRefreshToken then Some InvalidRefreshToken else None)\<rparr>)"
  using assms
  by (auto simp: refresh_flow_def with_loader_def refresh_try_def Let_def token_rejected_def
                 loader_exit_def clear_oauth_data_def record_call_def)

lemma refresh_except_other:
  "e \<noteq> HTTPException 400 \<Longrightarrow> e \<noteq> OAuthException \<Longrightarrow> refresh_except e w = (Raise e, w)"
  by (cases e) auto

lemma refresh_flow_other:
  assumes "refresh_result env = Some e" and "e \<noteq> HTTPException 400" and "e \<noteq> OAuthException"
  shows "refresh_flow env token w =
           (if loader_suppresses env e then Return else Raise e,
            (record_call (RefreshAccessInformation token) (w\<lparr>loader_exception := None\<rparr>))
            \<lparr>loader_exception := (if loader_suppresses env e then Some e else None)\<rparr>)"
  using assms
  by (auto simp: refresh_flow_def with_loader_def refresh_try_def Let_def refresh_except_other
                 loader_exit_def record_call_def)

text \<open>
  Claim C3, as amended. Let a refresh token be stored and let the silent refresh raise
  \<open>e\<close>. If \<open>e\<close> is an HTTP exception with the status 400 or an OAuth exception,
  \<^verbatim>\<open>authorize\<close> calls \<^verbatim>\<open>clear_authentication\<close> and \<^verbatim>\<open>delete_refresh_token\<close> after the
  one refresh call and then raises the invalid-refresh-token exception. For any other
  \<open>e\<close> (a 5xx status, say) it makes no call after the one refresh call, so that the
  credentials are untouched and nothing is retried, and \<open>e\<close> itself is raised again.
  Both exceptions are raised inside the block of the terminal's loader. An exception
  that the loader does not swallow reaches the caller of \<^verbatim>\<open>authorize\<close>; one that the
  loader swallows is recorded in \<^verbatim>\<open>loader.exception\<close>, and \<^verbatim>\<open>authorize\<close> returns
  normally through the \<^verbatim>\<open>return\<close> of line 156.
\<close>

theorem refresh_failure_in_loader:
  assumes "refresh_token w = Some token" and "token \<noteq> []" and "refresh_result env = Some e"
  shows "(e = HTTPException 400 \<or> e = OAuthException \<longrightarrow>
            calls (snd (authorize env w)) =
              calls w @ [RefreshAccessInformation token, LogException e,
                         ClearAuthentication, DeleteRefreshToken] \<and>
            (\<not> loader_suppresses env InvalidRefreshToken \<longrightarrow>
               fst (authorize env w) = Raise InvalidRefreshToken) \<and>
            (loader_suppresses env InvalidRefreshToken \<longrightarrow>
               fst (authorize env w) = Return \<and>
               loader_exception (snd (authorize env w)) = Some InvalidRefreshToken)) \<and>
         (e \<noteq> HTTPException 400 \<and> e \<noteq> OAuthException \<longrightarrow>
            calls (snd (authorize env w)) = calls w @ [RefreshAccessInformation token] \<and>
            refresh_token (snd (authorize env w)) = refresh_token w \<and>
            (\<not> loader_suppresses env e \<longrightarrow> fst (authorize env w) = Raise e) \<and>
            (loader_suppresses env e \<longrightarrow>
               fst (authorize env w) = Return \<and>
               loader_exception (snd (authorize env w)) = Some e))"
proof (intro conjI impI)
  assume r: "e = HTTPException 400 \<or> e = OAuthException"
  note run = refresh_flow_rejected [OF assms(3) r]
  show "calls (snd (authorize env w)) =
          calls w @ [RefreshAccessInformation token, LogException e, ClearAuthentication, DeleteRefreshToken]"
    using assms by (simp add: authorize_unfold run clear_oauth_data_def)
  { assume "\<not> loader_suppresses env InvalidRefreshToken"
    then show "fst (authorize env w) = Raise InvalidRefreshToken"
      using assms by (simp add: authorize_unfold run) }
  { assume s: "loader_suppresses env InvalidRefreshToken"
    then show "fst (authorize env w) = Return"
      using assms by (simp add: authorize_unfold run)
    from s show "loader_exception (snd (authorize env w)) = Some InvalidRefreshToken"
      using assms by (simp add: authorize_unfold run) }
next
  assume o: "e \<noteq> HTTPException 400 \<and> e \<noteq> OAuthException"
  then have o1: "e \<noteq> HTTPException 400" and o2: "e \<noteq> OAuthException" by simp_all
  note run = refresh_flow_other [OF assms(3) o1 o2]
  show "calls (snd (authorize env w)) = calls w @ [RefreshAccessInformation token]"
    using assms by (simp add: authorize_unfold run)
  show "refresh_token (snd (authorize env w)) = refresh_token w"
    using assms by (simp add: authorize_unfold run)
  { assume "\<not> loader_suppresses env e"
    then show "fst (authorize env w) = Raise e"
      using assms by (simp add: authorize_unfold run) }
  { assume s: "loader_suppresses env e"
    then show "fst (authorize env w) = Return"
      using assms by (simp add: authorize_unfold run)
    from s show "loader_exception (snd (authorize env w)) = Some e"
      using assms by (simp add: authorize_unfold run) }
qed

text \<open>
  The stored token \<^verbatim>\<open>old-token\<close> and the statuses 400 and 503, each under a loader
  that lets every exception through and under a loader that swallows every exception.
\<close>

lemmas refresh_inputs =
  world_token_def world0_def env_rejected_def env_unavailable_def env_forged_def
  env_swallowing_def env_unavailable_swallowing_def

theorem refresh_failure_in_loader_witness:
  "calls (snd (authorize env_rejected world_token)) =
     [RefreshAccessInformation ''old-token'', LogException (HTTPException 400),
      ClearAuthentication, DeleteRefreshToken] \<and>
   fst (authorize env_rejected world_token) = Raise InvalidRefreshToken \<and>
   calls (snd (authorize env_swallowing world_token)) =
     [RefreshAccessInformation ''old-token'', LogException (HTTPException 400),
      ClearAuthentication, DeleteRefreshToken] \<and>
   fst (authorize env_swallowing world_token) = Return \<and>
   calls (snd (authorize env_unavailable world_token)) = [RefreshAccessInformation ''old-token''] \<and>
   refresh_token (snd (authorize env_unavailable world_token)) = Some ''old-token'' \<and>
   fst (authorize env_unavailable world_token) = Raise (HTTPException 503) \<and>
   fst (authorize env_unavailable_swallowing world_token) = Return \<and>
   loader_exception (snd (authorize env_unavailable_swallowing world_token)) =
     Some (HTTPException 503)"
  using refresh_failure_in_loader [of world_token "''old-token''" env_rejected "HTTPException 400"]
        refresh_failure_in_loader [of world_token "''old-token''" env_swallowing "HTTPException 400"]
        refresh_failure_in_loader [of world_token "''old-token''" env_unavailable "HTTPException 503"]
        refresh_failure_in_loader [of world_token "''old-token''" env_unavailable_swallowing
          "HTTPException 503"]
  by (simp add: refresh_inputs)

text \<open>
  The claim as it was stated (\<^verbatim>\<open>authorize\<close> raises the invalid-refresh-token
  exception, and propagates any other exception) fails under a loader that swallows the
  exceptions raised in its block, as the blocks of lines 171 and 216 expect of it:
  \<^verbatim>\<open>authorize\<close> returns normally for the status 400 and for the status 503.
\<close>

theorem swallowing_loader_counterexample:
  "refresh_token world_token = Some ''old-token'' \<and>
   refresh_result env_swallowing = Some (HTTPException 400) \<and>
   fst (authorize env_swallowing world_token) = Return \<and>
   fst (authorize env_swallowing world_token) \<noteq> Raise InvalidRefreshToken \<and>
   refresh_result env_unavailable_swallowing = Some (HTTPException 503) \<and>
   fst (authorize env_unavailable_swallowing world_token) = Return \<and>
   fst (authorize env_unavailable_swallowing world_token) \<noteq> Raise (HTTPException 503)"
  by (simp add: model_defs refresh_inputs)

subsection \<open>The reset of the callback parameters\<close>

lemma reset_params_idem:
  "reset_params (w\<lparr>oauth_handler := (oauth_handler w)\<lparr>params := p\<rparr>\<rparr>) = reset_params w"
  by (simp add: reset_params_def)

lemma serve_forever_Nil: "serve_forever res [] h = h"
  by (simp add: serve_forever_def)

lemma interactive_no_callbacks:
  assumes "callbacks env = []" and "interactive env w = (f, w')"
  shows "params (oauth_handler w') = params (oauth_handler w)"
proof -
  define csrf where "csrf = uuid4_hex env"
  define url where "url = authorize_url env csrf"
  define w2 where "w2 = (if server (record_call (GetAuthorizeUrl csrf) w) then record_call (GetAuthorizeUrl csrf) w
      else record_call BindServer ((record_call (GetAuthorizeUrl csrf) w)\<lparr>server := True\<rparr>))"
  obtain f3 w3 where l: "(if display env then graphical env url w2 else headless env url w2) = (f3, w3)"
    by (cases "if display env then graphical env url w2 else headless env url w2")
  have run': "(f, w') = (case (f3, w3) of (Next, w3) \<Rightarrow> validate env csrf w3 | (f, w3) \<Rightarrow> (f, w3))"
    using assms(2) l unfolding interactive_def Let_def csrf_def url_def w2_def by simp
  have w2_params: "params (oauth_handler w2) = params (oauth_handler w)"
    by (auto simp: w2_def)
  have "params (oauth_handler w3) = params (oauth_handler w2)"
  proof (cases "display env")
    case True
    with l have g: "graphical env url w2 = (f3, w3)" by simp
    show ?thesis
    proof (cases "open_browser_result env")
      case None
      with g assms(1) show ?thesis
        by (auto simp: graphical_def with_loader_def browser_and_server_def Let_def serve_def
              serve_forever_Nil set_shutdown_on_request_def record_call_def)
    next
      case (Some e)
      with graphical_cases [OF g] g show ?thesis
        by (auto simp: graphical_def with_loader_def browser_and_server_def Let_def loader_exit_def
              set_shutdown_on_request_def record_call_def split: if_splits)
    qed
  next
    case False
    with l have "headless env url w2 = (f3, w3)" by simp
    with assms(1) show ?thesis
      by (auto simp: headless_def with_loader_def Let_def serve_def serve_forever_Nil
            set_shutdown_on_request_def record_call_def show_notification_def split: option.splits)
  qed
  moreover have "oauth_handler w' = oauth_handler w3"
  proof (cases f3)
    case Next
    with run' have "validate env csrf w3 = (f, w')" by simp
    from validate_handler [OF this] show ?thesis .
  qed (use run' in auto)
  ultimately show ?thesis using w2_params by simp
qed

text \<open>
  Claim C8. Every call of \<^verbatim>\<open>authorize\<close> starts by setting the three callback
  parameters to \<open>None\<close> together: whatever the parameters hold before the call, left
  there by an earlier attempt, the outcome and the final state of the call are those for
  parameters that are all absent, so that the checks of the call cannot see a stale
  value. In particular, when no callback arrives during the call, the parameters are
  all absent when it ends. The handler, for its part, overwrites the three parameters
  together: what it stores does not depend on what was stored before.
\<close>

theorem authorize_resets_params:
  "authorize env (w\<lparr>oauth_handler := (oauth_handler w)\<lparr>params := p\<rparr>\<rparr>) = authorize env w \<and>
   (callbacks env = [] \<longrightarrow>
      params (oauth_handler (snd (authorize env w))) = \<lparr>state = None, code = None, error = None\<rparr>) \<and>
   params (snd (do_GET res r (h\<lparr>params := q\<rparr>))) = params (snd (do_GET res r h))"
proof (intro conjI)
  show "params (snd (do_GET res r (h\<lparr>params := q\<rparr>))) = params (snd (do_GET res r h))"
    by (simp add: do_GET_params)
  show "authorize env (w\<lparr>oauth_handler := (oauth_handler w)\<lparr>params := p\<rparr>\<rparr>) = authorize env w"
    by (simp add: authorize_unfold reset_params_idem cong: option.case_cong if_cong)
  show "callbacks env = [] \<longrightarrow>
      params (oauth_handler (snd (authorize env w))) = \<lparr>state = None, code = None, error = None\<rparr>"
  proof
    assume c: "callbacks env = []"
    obtain f0 w0 where i: "interactive env (reset_params w) = (f0, w0)"
      by (cases "interactive env (reset_params w)")
    from interactive_no_callbacks [OF c i]
    have pi: "params (oauth_handler w0) = \<lparr>state = None, code = None, error = None\<rparr>" by simp
    show "params (oauth_handler (snd (authorize env w))) = \<lparr>state = None, code = None, error = None\<rparr>"
    proof (cases "\<exists>token. refresh_token w = Some token \<and> token \<noteq> []")
      case True
      then obtain token where t: "refresh_token w = Some token" "token \<noteq> []" by blast
      obtain f1 w1 where r: "refresh_flow env token (reset_params w) = (f1, w1)"
        by (cases "refresh_flow env token (reset_params w)")
      from refresh_flow_handler [OF r] have "params (oauth_handler w1) = \<lparr>state = None, code = None, error = None\<rparr>"
        by simp
      with t r show ?thesis by (auto simp: authorize_unfold split: flow.splits)
    next
      case False
      then have "authorize env w = (case (f0, w0) of (Next, w') \<Rightarrow> (Return, w') | (f, w') \<Rightarrow> (f, w'))"
        using i by (auto simp: authorize_unfold split: option.splits)
      with pi show ?thesis by (auto split: flow.splits)
    qed
  qed
qed

text \<open>
  A failed attempt leaves the state \<^verbatim>\<open>forged\<close> behind; the next attempt, in which no
  callback arrives, ends with the three parameters absent.
\<close>

theorem authorize_resets_params_witness:
  "state (params (oauth_handler (snd (authorize env_forged world0)))) = Some ''forged'' \<and>
   params (oauth_handler (snd (authorize env_quiet (snd (authorize env_forged world0))))) =
     \<lparr>state = None, code = None, error = None\<rparr>"
  using authorize_resets_params [where env = env_quiet and w = "snd (authorize env_forged world0)"]
  by (simp add: authorize_forged) (simp add: env_quiet_def world_forged_def)

end
